theory Spec2Isabelle
  imports Complex_Main "HOL-Library.Multiset"
begin

section \<open>Python values shared by the modules\<close>

text \<open>
  Exceptions are values. Every class the code raises or meets is a constructor carrying
  its message; \<open>SystemExit\<close> (raised by \<^verbatim>\<open>sys.exit\<close>) derives from \<^verbatim>\<open>BaseException\<close>
  only, so an \<^verbatim>\<open>except Exception\<close> clause does not catch it.
  Python floats (time limits, advantages in pawns) are modelled as reals.
\<close>

datatype py_exn =
    ValueError string
  | RuntimeError string
  | AttributeError string
  | FileNotFoundError string
  | ValidationError string
  | EngineError string
  | IndexError string
  | SystemExit int

fun is_Exception :: "py_exn \<Rightarrow> bool" where
  "is_Exception (SystemExit _) = False"
| "is_Exception _ = True"

section \<open>app/core/config.py: Settings\<close>

record settings =
  stockfish_paths :: "string list"
  default_analysis_time :: real
  max_analysis_time :: real

text \<open>The values of the class body (no environment override).\<close>

definition default_settings :: settings where
  "default_settings =
     \<lparr> stockfish_paths =
         [''./stockfish'', ''/usr/local/bin/stockfish'', ''/usr/bin/stockfish'', ''stockfish''],
       default_analysis_time = 1,
       max_analysis_time = 10 \<rparr>"

section \<open>app/services/chess_service.py: the time limit\<close>

text \<open>
  Both \<^verbatim>\<open>ChessService.analyze_position\<close> and \<^verbatim>\<open>ChessService.get_best_move\<close> contain
  \<^verbatim>\<open>
    if time_limit is None:
        time_limit = settings.default_analysis_time
    elif time_limit > settings.max_analysis_time:
        time_limit = settings.max_analysis_time
  \<close>
  which is the function below; the two service operations call it.
\<close>

definition validate_time_limit :: "settings \<Rightarrow> real option \<Rightarrow> real" where
  "validate_time_limit st time_limit =
     (case time_limit of
        None \<Rightarrow> default_analysis_time st
      | Some t \<Rightarrow> if t > max_analysis_time st then max_analysis_time st else t)"

section \<open>Python strings\<close>

text \<open>
  A Python string is a sequence of code points; a \<open>char\<close> here is a code point
  below 256, so the strings modelled are those of Latin-1 (ASCII included), and a
  record with any other code point is outside the model. \<open>py_split sep s\<close> is
  \<^verbatim>\<open>s.split(sep)\<close> for a non-empty separator: a left-to-right scan for non-overlapping
  occurrences. \<open>py_strip\<close> is \<^verbatim>\<open>s.strip()\<close>, which removes the characters for which
  \<^verbatim>\<open>str.isspace\<close> holds: below 256 these are 9 to 13, 28 to 32, 133 (U+0085, next
  line) and 160 (U+00A0, no-break space).
\<close>

function py_split :: "string \<Rightarrow> string \<Rightarrow> string list" where
  "py_split sep [] = [[]]"
| "py_split sep (c # cs) =
     (if sep \<noteq> [] \<and> take (length sep) (c # cs) = sep
      then [] # py_split sep (drop (length sep) (c # cs))
      else (case py_split sep cs of
              [] \<Rightarrow> [[c]]
            | p # ps \<Rightarrow> (c # p) # ps))"
  by pat_completeness auto
termination
  by (relation "measure (\<lambda>(sep, s). length s)") auto

definition is_space :: "char \<Rightarrow> bool" where
  "is_space c =
     (let n = (of_char c :: nat)
      in (9 \<le> n \<and> n \<le> 13) \<or> (28 \<le> n \<and> n \<le> 32) \<or> n = 133 \<or> n = 160)"

definition py_strip :: "string \<Rightarrow> string" where
  "py_strip s = rev (dropWhile is_space (rev (dropWhile is_space s)))"

text \<open>\<open>py_contains sub s\<close> is \<^verbatim>\<open>sub in s\<close>.\<close>

fun py_contains :: "string \<Rightarrow> string \<Rightarrow> bool" where
  "py_contains sub [] = (sub = [])"
| "py_contains sub (c # cs) = (take (length sub) (c # cs) = sub \<or> py_contains sub cs)"

definition is_digit :: "char \<Rightarrow> bool" where
  "is_digit c = (let n = (of_char c :: nat) in 48 \<le> n \<and> n \<le> 57)"

definition digit_val :: "char \<Rightarrow> nat" where
  "digit_val c = of_char c - 48"

definition digit_char :: "nat \<Rightarrow> char" where
  "digit_char d = char_of (48 + d)"

text \<open>\<^verbatim>\<open>str(n)\<close> for an integer: decimal digits, a minus sign when negative.\<close>

fun str_nat :: "nat \<Rightarrow> string" where
  "str_nat n = (if n < 10 then [digit_char n] else str_nat (n div 10) @ [digit_char (n mod 10)])"

declare str_nat.simps [simp del]

definition str_int :: "int \<Rightarrow> string" where
  "str_int i = (if i < 0 then CHR ''-'' # str_nat (nat (- i)) else str_nat (nat i))"

text \<open>\<^verbatim>\<open>str(e)\<close> of an exception: its message (the exit status for \<^verbatim>\<open>SystemExit\<close>).\<close>

fun exn_str :: "py_exn \<Rightarrow> string" where
  "exn_str (ValueError s) = s"
| "exn_str (RuntimeError s) = s"
| "exn_str (AttributeError s) = s"
| "exn_str (FileNotFoundError s) = s"
| "exn_str (ValidationError s) = s"
| "exn_str (EngineError s) = s"
| "exn_str (IndexError s) = s"
| "exn_str (SystemExit n) = str_int n"

text \<open>
  \<^verbatim>\<open>int(s)\<close> for a string that matches \<^verbatim>\<open>[+-]?\d+\<close> (the only strings the code passes):
  an optional sign, then decimal digits.
\<close>

definition digits_val :: "string \<Rightarrow> nat" where
  "digits_val ds = foldl (\<lambda>a c. 10 * a + digit_val c) 0 ds"

definition py_int :: "string \<Rightarrow> int" where
  "py_int s =
     (case s of
        [] \<Rightarrow> 0
      | c # cs \<Rightarrow>
          if c = CHR ''+'' then int (digits_val cs)
          else if c = CHR ''-'' then - int (digits_val cs)
          else int (digits_val (c # cs)))"

text \<open>
  \<^verbatim>\<open>re.search(r'Cp\(([+-]?\d+)\)', s)\<close>, returning group 1 of the leftmost match.
  \<open>match_cp_at s\<close> is the match anchored at the start of \<open>s\<close>: the literal \<^verbatim>\<open>Cp(\<close>,
  an optional sign, the longest run of digits (at least one), then \<^verbatim>\<open>)\<close>. The
  quantifiers are greedy, and giving a character back never helps: a sign is not a
  digit and a digit is not a closing parenthesis.
\<close>

definition match_cp_at :: "string \<Rightarrow> string option" where
  "match_cp_at s =
     (if take 3 s = ''Cp('' then
        (let r = drop 3 s;
             sgn = (case r of
                      [] \<Rightarrow> []
                    | c # _ \<Rightarrow> if c = CHR ''+'' \<or> c = CHR ''-'' then [c] else []);
             r1 = drop (length sgn) r;
             ds = takeWhile is_digit r1;
             r2 = dropWhile is_digit r1
         in if ds \<noteq> [] \<and> take 1 r2 = '')'' then Some (sgn @ ds) else None)
      else None)"

fun re_search_cp :: "string \<Rightarrow> string option" where
  "re_search_cp [] = None"
| "re_search_cp (c # cs) =
     (case match_cp_at (c # cs) of
        Some g \<Rightarrow> Some g
      | None \<Rightarrow> re_search_cp cs)"

section \<open>The chess library (python-chess), as the code uses it\<close>

subsection \<open>Engine scores\<close>

text \<open>
  \<^verbatim>\<open>engine.analyse\<close> returns an info dictionary whose \<^verbatim>\<open>"score"\<close> entry is a
  \<^verbatim>\<open>chess.engine.PovScore\<close>: a \<^verbatim>\<open>Score\<close> relative to the side to move of the analysed
  position, together with that side (\<open>True\<close> is white). A \<^verbatim>\<open>Score\<close> is \<^verbatim>\<open>Cp(n)\<close>,
  \<^verbatim>\<open>Mate(k)\<close> or \<^verbatim>\<open>MateGiven\<close>.

  The library's \<^verbatim>\<open>PovScore\<close> offers \<^verbatim>\<open>relative\<close>, \<^verbatim>\<open>turn\<close>, \<^verbatim>\<open>white()\<close>, \<^verbatim>\<open>black()\<close>,
  \<^verbatim>\<open>pov(color)\<close>, \<^verbatim>\<open>is_mate()\<close> and \<^verbatim>\<open>wdl()\<close>. It has neither \<^verbatim>\<open>__str__\<close> (so \<^verbatim>\<open>str\<close>
  gives the \<^verbatim>\<open>repr\<close>, such as \<^verbatim>\<open>PovScore(Cp(+50), BLACK)\<close>) nor a method \<^verbatim>\<open>mate\<close>
  (that one belongs to \<^verbatim>\<open>Score\<close>), so \<^verbatim>\<open>score.mate()\<close> on it raises \<^verbatim>\<open>AttributeError\<close>.
  That the scores the code handles are \<^verbatim>\<open>PovScore\<close>s is also what its own test
  \<^verbatim>\<open>"Cp(" in str(score)\<close> relies on: \<^verbatim>\<open>str\<close> of a bare \<^verbatim>\<open>Cp(50)\<close> is \<^verbatim>\<open>+50\<close>.
\<close>

datatype score = Cp int | Mate int | MateGiven

record pov_score =
  relative :: score
  pov_turn :: bool

fun score_is_mate :: "score \<Rightarrow> bool" where
  "score_is_mate (Cp _) = False"
| "score_is_mate (Mate _) = True"
| "score_is_mate MateGiven = True"

text \<open>\<^verbatim>\<open>Cp.__repr__\<close>, \<^verbatim>\<open>Mate.__repr__\<close>, \<^verbatim>\<open>MateGivenType.__repr__\<close>.\<close>

fun score_repr :: "score \<Rightarrow> string" where
  "score_repr (Cp n) = ''Cp('' @ (if n > 0 then CHR ''+'' # str_int n else str_int n) @ '')''"
| "score_repr (Mate k) =
     ''Mate('' @ (if k > 0 then CHR ''+'' # str_int k else CHR ''-'' # str_int (abs k)) @ '')''"
| "score_repr MateGiven = ''MateGiven''"

definition is_mate_method :: "pov_score \<Rightarrow> bool" where
  "is_mate_method s = score_is_mate (relative s)"

definition pov_score_str :: "pov_score \<Rightarrow> string" where
  "pov_score_str s =
     ''PovScore('' @ score_repr (relative s) @ '', '' @
       (if pov_turn s then ''WHITE'' else ''BLACK'') @ '')''"

definition mate_method :: "pov_score \<Rightarrow> py_exn + int" where
  "mate_method s = Inl (AttributeError ''PovScore object has no attribute mate'')"

subsection \<open>Boards\<close>

text \<open>
  A \<^verbatim>\<open>chess.Board\<close> holds the current position (pieces, side to move, castling rights,
  en-passant square, clocks: everything its FEN shows), the stack of moves made and the
  stack of positions those moves were made from. \<^verbatim>\<open>push\<close> saves the position and
  makes the move; \<^verbatim>\<open>pop\<close> restores the saved position and raises \<^verbatim>\<open>IndexError\<close> on
  an empty stack. The rules themselves (FEN parsing and printing, move generation, the
  effect of a move) belong to the library and are parameters: the fields of \<open>world\<close>
  below, over a type \<open>'p\<close> of positions and a type \<open>'m\<close> of moves.
\<close>

record ('p, 'm) board =
  position :: 'p
  move_stack :: "'m list"
  state_stack :: "'p list"

datatype limit = Depth int | Time real

text \<open>
  The info dictionary of \<^verbatim>\<open>engine.analyse\<close>: the four keys the code reads, each
  present or absent, and whether the dictionary holds any other key (which decides
  its truth value).
\<close>

record 'm info =
  info_score :: "pov_score option"
  info_pv :: "'m list option"
  info_depth :: "int option"
  info_nodes :: "int option"
  info_other :: bool

definition empty_info :: "'m info" where
  "empty_info =
     \<lparr> info_score = None, info_pv = None, info_depth = None, info_nodes = None,
       info_other = False \<rparr>"

definition info_truthy :: "'m info \<Rightarrow> bool" where
  "info_truthy i =
     (info_score i \<noteq> None \<or> info_pv i \<noteq> None \<or> info_depth i \<noteq> None \<or>
      info_nodes i \<noteq> None \<or> info_other i)"

text \<open>
  Everything outside the repository: the file system (\<^verbatim>\<open>os.path.exists\<close>), the engine
  process (\<^verbatim>\<open>SimpleEngine.popen_uci\<close> and \<^verbatim>\<open>analyse\<close>, over a type \<open>'e\<close> of engine
  states; \<open>Inl msg\<close> is a raised \<^verbatim>\<open>Exception\<close> with that message) and the rules of
  chess. \<open>analyse\<close> returns the engine's next state with its answer, so an engine may
  answer the same question differently on a later call.
\<close>

record ('p, 'm, 'e) world =
  path_exists :: "string \<Rightarrow> bool"
  popen_uci :: "string \<Rightarrow> string + 'e"
  analyse :: "'e \<Rightarrow> ('p, 'm) board \<Rightarrow> limit \<Rightarrow> (string + 'm info) \<times> 'e"
  parse_fen :: "string \<Rightarrow> string + 'p"
  legal_moves :: "'p \<Rightarrow> 'm list"
  apply_move :: "'p \<Rightarrow> 'm \<Rightarrow> 'p"
  board_fen :: "'p \<Rightarrow> string"
  board_turn :: "'p \<Rightarrow> bool"
  move_str :: "'m \<Rightarrow> string"

text \<open>\<^verbatim>\<open>chess.Board(fen)\<close>: raises \<^verbatim>\<open>ValueError\<close> when the FEN does not parse.\<close>

definition Board :: "('p, 'm, 'e) world \<Rightarrow> string \<Rightarrow> py_exn + ('p, 'm) board" where
  "Board W f =
     (case parse_fen W f of
        Inl msg \<Rightarrow> Inl (ValueError msg)
      | Inr p \<Rightarrow> Inr \<lparr> position = p, move_stack = [], state_stack = [] \<rparr>)"

definition push :: "('p, 'm, 'e) world \<Rightarrow> ('p, 'm) board \<Rightarrow> 'm \<Rightarrow> ('p, 'm) board" where
  "push W b m =
     \<lparr> position = apply_move W (position b) m,
       move_stack = move_stack b @ [m],
       state_stack = state_stack b @ [position b] \<rparr>"

definition pop :: "('p, 'm) board \<Rightarrow> py_exn + ('p, 'm) board" where
  "pop b =
     (if move_stack b = [] \<or> state_stack b = [] then Inl (IndexError ''pop from empty list'')
      else Inr \<lparr> position = last (state_stack b),
                 move_stack = butlast (move_stack b),
                 state_stack = butlast (state_stack b) \<rparr>)"

definition fen :: "('p, 'm, 'e) world \<Rightarrow> ('p, 'm) board \<Rightarrow> string" where
  "fen W b = board_fen W (position b)"

section \<open>chess\_scoring.py: ChessAnalyzer\<close>

text \<open>
  The analyzer object: the engine handle (\<open>None\<close> until \<^verbatim>\<open>start_engine\<close> succeeds;
  the handle is the engine's state) and the defaults. The \<^verbatim>\<open>show_*\<close> flags only steer
  printing and are left out.
\<close>

record 'e chess_analyzer =
  engine_path :: string
  engine :: "'e option"
  default_depth :: "int option"
  default_time :: real

text \<open>
  \<^verbatim>\<open>start_engine\<close>: the body of the \<^verbatim>\<open>try\<close>, then the handler
  \<^verbatim>\<open>except Exception as e: print(...); sys.exit(1)\<close>.
\<close>

definition start_engine_try ::
  "('p, 'm, 'e) world \<Rightarrow> 'e chess_analyzer \<Rightarrow> py_exn + 'e chess_analyzer" where
  "start_engine_try W a =
     (if \<not> path_exists W (engine_path a)
      then Inl (FileNotFoundError (''Stockfish engine not found at '' @ engine_path a))
      else (case popen_uci W (engine_path a) of
              Inl msg \<Rightarrow> Inl (EngineError msg)
            | Inr e \<Rightarrow> Inr (a\<lparr>engine := Some e\<rparr>)))"

definition start_engine ::
  "('p, 'm, 'e) world \<Rightarrow> 'e chess_analyzer \<Rightarrow> py_exn + 'e chess_analyzer" where
  "start_engine W a =
     (case start_engine_try W a of
        Inl ex \<Rightarrow> if is_Exception ex then Inl (SystemExit 1) else Inl ex
      | Inr a' \<Rightarrow> Inr a')"

text \<open>
  \<^verbatim>\<open>ChessAnalyzer.analyze_position\<close>. First the limit: the defaults replace absent
  arguments, and a depth that is set and not zero wins over the time. The check of
  the engine handle is outside the \<^verbatim>\<open>try\<close>; an exception of \<^verbatim>\<open>engine.analyse\<close> is
  caught and the empty dictionary returned.
\<close>

definition analysis_limit :: "'e chess_analyzer \<Rightarrow> real option \<Rightarrow> int option \<Rightarrow> limit" where
  "analysis_limit a time_limit depth_limit =
     (let tlim = (case time_limit of None \<Rightarrow> default_time a | Some t \<Rightarrow> t);
          dl = (case depth_limit of None \<Rightarrow> default_depth a | Some d \<Rightarrow> Some d)
      in (case dl of
            None \<Rightarrow> Time tlim
          | Some d \<Rightarrow> if d \<noteq> 0 then Depth d else Time tlim))"

definition analyze_position ::
  "('p, 'm, 'e) world \<Rightarrow> 'e chess_analyzer \<Rightarrow> ('p, 'm) board \<Rightarrow> real option \<Rightarrow> int option
     \<Rightarrow> (py_exn + 'm info) \<times> 'e chess_analyzer" where
  "analyze_position W a b time_limit depth_limit =
     (case engine a of
        None \<Rightarrow> (Inl (RuntimeError ''Engine not started. Use start_engine() first.''), a)
      | Some e \<Rightarrow>
          (case analyse W e b (analysis_limit a time_limit depth_limit) of
             (Inl msg, e') \<Rightarrow> (Inr empty_info, a\<lparr>engine := Some e'\<rparr>)
           | (Inr i, e') \<Rightarrow> (Inr i, a\<lparr>engine := Some e'\<rparr>)))"

text \<open>
  The centipawn extraction shared by \<^verbatim>\<open>get_board_analysis\<close>, \<^verbatim>\<open>get_moves_json\<close> and
  \<^verbatim>\<open>get_best_move\<close>:
  \<^verbatim>\<open>
    try:
        score_str = str(score)
        if "Cp(" in score_str:
            match = re.search(r'Cp\(([+-]?\d+)\)', score_str)
            if match:
                centipawns = int(match.group(1))
                ...["white_advantage"] = centipawns / 100.0
    except:
        pass
  \<close>
  The result is the new value of the advantage entry, \<open>None\<close> when it stays unset.
  The division converts the integer to a float first and raises \<^verbatim>\<open>OverflowError\<close>
  when it is too large for one, that is when it would round to \<open>2 ^ 1024\<close> or
  beyond; the bare \<^verbatim>\<open>except\<close> swallows that and the entry stays unset. The rounding of
  the quotient to a float is not modelled: the advantage is the real number.
\<close>

definition float_overflows :: "int \<Rightarrow> bool" where
  "float_overflows n = (\<bar>n\<bar> \<ge> 2 ^ 1024 - 2 ^ 970)"

definition extract_advantage :: "pov_score \<Rightarrow> real option" where
  "extract_advantage sc =
     (let score_str = pov_score_str sc
      in if py_contains ''Cp('' score_str
         then (case re_search_cp score_str of
                 None \<Rightarrow> None
               | Some g \<Rightarrow>
                   (let centipawns = py_int g
                    in if float_overflows centipawns then None
                       else Some (real_of_int centipawns / 100)))
         else None)"

record move_data =
  move :: string
  white_advantage :: "real option"
  is_mate :: bool
  mate_in :: "int option"
  best_response :: "string option"
  depth_reached :: "int option"
  nodes_searched :: "int option"

text \<open>The dictionary \<^verbatim>\<open>move_data\<close> as \<^verbatim>\<open>get_board_analysis\<close> first builds it.\<close>

definition initial_move_data :: "string \<Rightarrow> move_data" where
  "initial_move_data mv =
     \<lparr> move = mv, white_advantage = None, is_mate = False, mate_in = None,
       best_response = None, depth_reached = None, nodes_searched = None \<rparr>"

text \<open>
  The part of the loop body of \<^verbatim>\<open>get_board_analysis\<close> between \<^verbatim>\<open>analyze_position\<close>
  and \<^verbatim>\<open>board.pop()\<close>: filling \<^verbatim>\<open>move_data\<close> from \<^verbatim>\<open>info\<close>. The call \<^verbatim>\<open>score.mate()\<close>
  is outside every \<^verbatim>\<open>try\<close>, so its exception leaves the function.
\<close>

definition fill_move_data :: "('p, 'm, 'e) world \<Rightarrow> 'm \<Rightarrow> 'm info \<Rightarrow> py_exn + move_data" where
  "fill_move_data W m i =
     (let move_data = initial_move_data (move_str W m)
      in if \<not> info_truthy i then Inr move_data
         else
           (case info_score i of
              None \<Rightarrow> Inr move_data
            | Some score \<Rightarrow>
                (case (if is_mate_method score
                       then (case mate_method score of
                               Inl ex \<Rightarrow> Inl ex
                             | Inr mate_moves \<Rightarrow>
                                 Inr (move_data\<lparr>is_mate := True, mate_in := Some mate_moves,
                                                  white_advantage := None\<rparr>))
                       else (case extract_advantage score of
                               None \<Rightarrow> Inr move_data
                             | Some adv \<Rightarrow> Inr (move_data\<lparr>white_advantage := Some adv\<rparr>))) of
                   Inl ex \<Rightarrow> Inl ex
                 | Inr md1 \<Rightarrow>
                     (let md2 = (case info_pv i of
                                   None \<Rightarrow> md1
                                 | Some pv \<Rightarrow>
                                     if pv \<noteq> []
                                     then md1\<lparr>best_response := Some (move_str W (hd pv))\<rparr>
                                     else md1);
                          md3 = (case info_depth i of
                                   None \<Rightarrow> md2
                                 | Some d \<Rightarrow> md2\<lparr>depth_reached := Some d\<rparr>);
                          md4 = (case info_nodes i of
                                   None \<Rightarrow> md3
                                 | Some n \<Rightarrow> md3\<lparr>nodes_searched := Some n\<rparr>)
                      in Inr md4))))"

text \<open>
  The loop \<^verbatim>\<open>for move in legal_moves\<close> of \<^verbatim>\<open>get_board_analysis\<close>, over the analyzer,
  the board and the list \<^verbatim>\<open>analysis_data["moves"]\<close> built so far. An exception ends
  it at once, with the board as it is at that moment.
\<close>

fun board_analysis_loop ::
  "('p, 'm, 'e) world \<Rightarrow> 'e chess_analyzer \<Rightarrow> ('p, 'm) board \<Rightarrow> real \<Rightarrow> 'm list
     \<Rightarrow> move_data list \<Rightarrow> (py_exn + move_data list) \<times> 'e chess_analyzer \<times> ('p, 'm) board" where
  "board_analysis_loop W a b tlim [] acc = (Inr acc, a, b)"
| "board_analysis_loop W a b tlim (m # ms) acc =
     (let b1 = push W b m
      in (case analyze_position W a b1 (Some tlim) None of
            (Inl ex, a1) \<Rightarrow> (Inl ex, a1, b1)
          | (Inr i, a1) \<Rightarrow>
              (case fill_move_data W m i of
                 Inl ex \<Rightarrow> (Inl ex, a1, b1)
               | Inr md \<Rightarrow>
                   (case pop b1 of
                      Inl ex \<Rightarrow> (Inl ex, a1, b1)
                    | Inr b2 \<Rightarrow> board_analysis_loop W a1 b2 tlim ms (acc @ [md])))))"

text \<open>
  \<^verbatim>\<open>list.sort(key=..., reverse=True)\<close>: the list is reversed, sorted stably in ascending
  order of the key, and reversed again. The key of both ranking statements is
  \<^verbatim>\<open>x["white_advantage"] if x["white_advantage"] is not None else -999\<close>.
\<close>

definition py_sort_reverse :: "('a \<Rightarrow> real) \<Rightarrow> 'a list \<Rightarrow> 'a list" where
  "py_sort_reverse k xs = rev (sort_key k (rev xs))"

definition advantage_key :: "move_data \<Rightarrow> real" where
  "advantage_key x = (case white_advantage x of None \<Rightarrow> - 999 | Some a \<Rightarrow> a)"

definition rank :: "move_data list \<Rightarrow> move_data list" where
  "rank mds = py_sort_reverse advantage_key mds"

record analysis_data =
  ad_fen :: string
  ad_turn :: string
  total_moves :: nat
  moves :: "move_data list"

definition get_board_analysis ::
  "('p, 'm, 'e) world \<Rightarrow> 'e chess_analyzer \<Rightarrow> ('p, 'm) board \<Rightarrow> real option
     \<Rightarrow> (py_exn + analysis_data) \<times> 'e chess_analyzer \<times> ('p, 'm) board" where
  "get_board_analysis W a b time_limit =
     (let tlim = (case time_limit of None \<Rightarrow> default_time a | Some t \<Rightarrow> t);
          legal = legal_moves W (position b);
          data = \<lparr> ad_fen = fen W b,
                   ad_turn = (if board_turn W (position b) then ''white'' else ''black''),
                   total_moves = length legal,
                   moves = [] \<rparr>
      in if legal = [] then (Inr data, a, b)
         else (case board_analysis_loop W a b tlim legal [] of
                 (Inl ex, a', b') \<Rightarrow> (Inl ex, a', b')
               | (Inr mds, a', b') \<Rightarrow> (Inr (data\<lparr>moves := rank mds\<rparr>), a', b')))"

text \<open>
  \<^verbatim>\<open>ChessAnalyzer.get_best_move\<close>. The dictionary it returns has the key \<^verbatim>\<open>"error"\<close>
  only when the analysis came back empty; the keys \<^verbatim>\<open>depth_reached\<close>, \<^verbatim>\<open>nodes_searched\<close>
  and \<^verbatim>\<open>principal_variation\<close> are absent from that dictionary (\<open>bm_has_details\<close>).
  A \<^verbatim>\<open>PovScore\<close> object is always true, so \<^verbatim>\<open>if score\<close> asks whether the key is there.
\<close>

record best_move_data =
  bm_error :: "string option"
  bm_best_move :: "string option"
  bm_advantage :: "real option"
  bm_is_mate :: bool
  bm_mate_in :: "int option"
  bm_has_details :: bool
  bm_depth_reached :: "int option"
  bm_nodes_searched :: "int option"
  bm_principal_variation :: "string list"

definition get_best_move ::
  "('p, 'm, 'e) world \<Rightarrow> 'e chess_analyzer \<Rightarrow> ('p, 'm) board \<Rightarrow> real option
     \<Rightarrow> (py_exn + best_move_data) \<times> 'e chess_analyzer" where
  "get_best_move W a b time_limit =
     (let tlim = (case time_limit of None \<Rightarrow> default_time a | Some t \<Rightarrow> t)
      in (case analyze_position W a b (Some tlim) None of
            (Inl ex, a1) \<Rightarrow> (Inl ex, a1)
          | (Inr i, a1) \<Rightarrow>
              if \<not> info_truthy i then
                (Inr \<lparr> bm_error = Some ''Analysis failed'', bm_best_move = None,
                       bm_advantage = None, bm_is_mate = False, bm_mate_in = None,
                       bm_has_details = False, bm_depth_reached = None,
                       bm_nodes_searched = None, bm_principal_variation = [] \<rparr>, a1)
              else
                (let pv = (case info_pv i of None \<Rightarrow> [] | Some l \<Rightarrow> l);
                     result = \<lparr> bm_error = None,
                                bm_best_move = (if pv \<noteq> [] then Some (move_str W (hd pv)) else None),
                                bm_advantage = None, bm_is_mate = False, bm_mate_in = None,
                                bm_has_details = True,
                                bm_depth_reached = info_depth i,
                                bm_nodes_searched = info_nodes i,
                                bm_principal_variation =
                                  (if pv \<noteq> [] then map (move_str W) (take 5 pv) else []) \<rparr>
                 in (case info_score i of
                       None \<Rightarrow> (Inr result, a1)
                     | Some score \<Rightarrow>
                         if is_mate_method score
                         then (case mate_method score of
                                 Inl ex \<Rightarrow> (Inl ex, a1)
                               | Inr mate_moves \<Rightarrow>
                                   (Inr (result\<lparr>bm_is_mate := True, bm_mate_in := Some mate_moves,
                                                bm_advantage := None\<rparr>), a1))
                         else (case extract_advantage score of
                                 None \<Rightarrow> (Inr result, a1)
                               | Some adv \<Rightarrow> (Inr (result\<lparr>bm_advantage := Some adv\<rparr>), a1))))))"

section \<open>app/utils/chess\_utils.py\<close>

definition parse_state_string ::
  "('p, 'm, 'e) world \<Rightarrow> string \<Rightarrow> py_exn + string \<times> string \<times> string" where
  "parse_state_string W state_string =
     (let parts = py_split ''::'' state_string
      in if length parts < 2
         then Inl (ValueError ''State string must contain at least turn and FEN separated by ::'')
         else
           (let turn = py_strip (parts ! 0);
                fen_str = py_strip (parts ! 1);
                arrows = (if length parts > 2 then py_strip (parts ! 2) else [])
            in if turn \<noteq> ''white'' \<and> turn \<noteq> ''black''
               then Inl (ValueError ''Turn must be white or black'')
               else (case Board W fen_str of
                       Inl ex \<Rightarrow> Inl (ValueError (''Invalid FEN: '' @ exn_str ex))
                     | Inr b \<Rightarrow> Inr (turn, fen_str, arrows))))"

definition find_stockfish_path :: "('p, 'm, 'e) world \<Rightarrow> string list \<Rightarrow> string option" where
  "find_stockfish_path W paths = find (\<lambda>path. path_exists W path \<or> path = ''stockfish'') paths"

section \<open>app/services/chess\_service.py: ChessService\<close>

record 'e chess_service =
  svc_analyzer :: "'e chess_analyzer option"
  svc_engine_path :: "string option"

text \<open>
  \<^verbatim>\<open>_initialize_analyzer\<close> and \<^verbatim>\<open>_get_analyzer\<close>. The analyzer object is stored before
  its engine is started. The analyzer is one shared object: what a call does to it
  (the engine's state) is written back to the service after each call below.
\<close>

definition engine_not_found_message :: string where
  "engine_not_found_message =
     ''Stockfish engine not found. Please install Stockfish and ensure it's in your PATH or current directory.''"

definition initialize_analyzer ::
  "('p, 'm, 'e) world \<Rightarrow> settings \<Rightarrow> 'e chess_service
     \<Rightarrow> (py_exn + 'e chess_analyzer) \<times> 'e chess_service" where
  "initialize_analyzer W st svc =
     (let svc1 = (if svc_engine_path svc = None
                  then svc\<lparr>svc_engine_path := find_stockfish_path W (stockfish_paths st)\<rparr>
                  else svc)
      in (case svc_engine_path svc1 of
            None \<Rightarrow> (Inl (RuntimeError engine_not_found_message), svc1)
          | Some p \<Rightarrow>
              (let a = \<lparr> engine_path = p, engine = None, default_depth = None,
                         default_time = default_analysis_time st \<rparr>;
                   svc2 = svc1\<lparr>svc_analyzer := Some a\<rparr>
               in (case start_engine W a of
                     Inl ex \<Rightarrow> (Inl ex, svc2)
                   | Inr a' \<Rightarrow> (Inr a', svc2\<lparr>svc_analyzer := Some a'\<rparr>)))))"

definition get_analyzer ::
  "('p, 'm, 'e) world \<Rightarrow> settings \<Rightarrow> 'e chess_service
     \<Rightarrow> (py_exn + 'e chess_analyzer) \<times> 'e chess_service" where
  "get_analyzer W st svc =
     (case svc_analyzer svc of
        None \<Rightarrow> initialize_analyzer W st svc
      | Some a \<Rightarrow> (Inr a, svc))"

text \<open>\<^verbatim>\<open>ChessService.start_engine\<close>: \<^verbatim>\<open>except Exception\<close> does not catch \<^verbatim>\<open>SystemExit\<close>.\<close>

definition service_start_engine ::
  "('p, 'm, 'e) world \<Rightarrow> settings \<Rightarrow> 'e chess_service \<Rightarrow> (py_exn + unit) \<times> 'e chess_service" where
  "service_start_engine W st svc =
     (case get_analyzer W st svc of
        (Inl ex, svc1) \<Rightarrow>
          (if is_Exception ex
           then Inl (RuntimeError (''Failed to start chess engine: '' @ exn_str ex))
           else Inl ex, svc1)
      | (Inr a, svc1) \<Rightarrow> (Inr (), svc1))"

record best_move_response =
  bmr_best_move :: string
  bmr_advantage :: "real option"
  bmr_is_mate :: bool
  bmr_mate_in :: "int option"
  bmr_depth_reached :: "int option"
  bmr_nodes_searched :: "int option"
  bmr_principal_variation :: "string list"

record analysis_response =
  ar_fen :: string
  ar_turn :: string
  ar_total_moves :: nat
  ar_moves :: "move_data list"
  ar_best_move :: "string option"
  ar_advantage :: "real option"
  ar_is_mate :: bool
  ar_mate_in :: "int option"
  ar_principal_variation :: "string list"

text \<open>
  \<^verbatim>\<open>ChessService.get_best_move\<close>. \<^verbatim>\<open>BestMoveResponse\<close> declares \<^verbatim>\<open>best_move: str\<close>, so
  building it from a dictionary without a best move fails validation.
\<close>

definition service_get_best_move ::
  "('p, 'm, 'e) world \<Rightarrow> settings \<Rightarrow> 'e chess_service \<Rightarrow> string \<Rightarrow> real option
     \<Rightarrow> (py_exn + best_move_response) \<times> 'e chess_service" where
  "service_get_best_move W st svc state_string time_limit =
     (case parse_state_string W state_string of
        Inl ex \<Rightarrow> (Inl ex, svc)
      | Inr (turn, fen_str, arrows) \<Rightarrow>
          (let tlim = validate_time_limit st time_limit
           in (case Board W fen_str of
                 Inl ex \<Rightarrow> (Inl (ValueError (''Invalid FEN: '' @ exn_str ex)), svc)
               | Inr b \<Rightarrow>
                   (case get_analyzer W st svc of
                      (Inl ex, svc1) \<Rightarrow> (Inl ex, svc1)
                    | (Inr a, svc1) \<Rightarrow>
                        (case get_best_move W a b (Some tlim) of
                           (Inl ex, a1) \<Rightarrow>
                             (if is_Exception ex
                              then Inl (RuntimeError (''Best move analysis failed: '' @ exn_str ex))
                              else Inl ex, svc1\<lparr>svc_analyzer := Some a1\<rparr>)
                         | (Inr d, a1) \<Rightarrow>
                             (case bm_error d of
                                Some msg \<Rightarrow> (Inl (RuntimeError msg), svc1\<lparr>svc_analyzer := Some a1\<rparr>)
                              | None \<Rightarrow>
                                  (case bm_best_move d of
                                     None \<Rightarrow>
                                       (Inl (ValidationError ''best_move: none is not an allowed value''),
                                        svc1\<lparr>svc_analyzer := Some a1\<rparr>)
                                   | Some bm \<Rightarrow>
                                       (Inr \<lparr> bmr_best_move = bm,
                                              bmr_advantage = bm_advantage d,
                                              bmr_is_mate = bm_is_mate d,
                                              bmr_mate_in = bm_mate_in d,
                                              bmr_depth_reached = bm_depth_reached d,
                                              bmr_nodes_searched = bm_nodes_searched d,
                                              bmr_principal_variation = bm_principal_variation d \<rparr>,
                                        svc1\<lparr>svc_analyzer := Some a1\<rparr>))))))))"

text \<open>\<^verbatim>\<open>ChessService.analyze_position\<close>.\<close>

definition service_analyze_position ::
  "('p, 'm, 'e) world \<Rightarrow> settings \<Rightarrow> 'e chess_service \<Rightarrow> string \<Rightarrow> real option
     \<Rightarrow> (py_exn + analysis_response) \<times> 'e chess_service" where
  "service_analyze_position W st svc state_string time_limit =
     (case parse_state_string W state_string of
        Inl ex \<Rightarrow> (Inl ex, svc)
      | Inr (turn, fen_str, arrows) \<Rightarrow>
          (let tlim = validate_time_limit st time_limit
           in (case Board W fen_str of
                 Inl ex \<Rightarrow> (Inl (ValueError (''Invalid FEN: '' @ exn_str ex)), svc)
               | Inr b \<Rightarrow>
                   (case get_analyzer W st svc of
                      (Inl ex, svc1) \<Rightarrow> (Inl ex, svc1)
                    | (Inr a, svc1) \<Rightarrow>
                        (case get_board_analysis W a b (Some tlim) of
                           (Inl ex, a1, b1) \<Rightarrow>
                             (if is_Exception ex
                              then Inl (RuntimeError (''Analysis failed: '' @ exn_str ex))
                              else Inl ex, svc1\<lparr>svc_analyzer := Some a1\<rparr>)
                         | (Inr ad, a1, b1) \<Rightarrow>
                             (case get_best_move W a1 b1 (Some tlim) of
                                (Inl ex, a2) \<Rightarrow>
                                  (if is_Exception ex
                                   then Inl (RuntimeError (''Best move analysis failed: '' @ exn_str ex))
                                   else Inl ex, svc1\<lparr>svc_analyzer := Some a2\<rparr>)
                              | (Inr d, a2) \<Rightarrow>
                                  (Inr \<lparr> ar_fen = ad_fen ad,
                                         ar_turn = ad_turn ad,
                                         ar_total_moves = total_moves ad,
                                         ar_moves = moves ad,
                                         ar_best_move = bm_best_move d,
                                         ar_advantage = bm_advantage d,
                                         ar_is_mate = bm_is_mate d,
                                         ar_mate_in = bm_mate_in d,
                                         ar_principal_variation = bm_principal_variation d \<rparr>,
                                   svc1\<lparr>svc_analyzer := Some a2\<rparr>)))))))"

text \<open>\<^verbatim>\<open>ChessService.is_engine_ready\<close>.\<close>

definition is_engine_ready :: "'e chess_service \<Rightarrow> bool" where
  "is_engine_ready svc =
     (case svc_analyzer svc of
        None \<Rightarrow> False
      | Some a \<Rightarrow> engine a \<noteq> None)"

section \<open>The specification's wording, for comparison with the code\<close>





text \<open>
  The parse failures as the specification lists them, on the segments as they stand
  in the record: fewer than two segments, a turn segment that is neither \<^verbatim>\<open>white\<close>
  nor \<^verbatim>\<open>black\<close>, or a FEN segment the library does not parse.
\<close>

definition spec_record_invalid :: "('p, 'm, 'e) world \<Rightarrow> string \<Rightarrow> bool" where
  "spec_record_invalid W state_string =
     (let parts = py_split ''::'' state_string
      in length parts < 2 \<or>
         (parts ! 0 \<noteq> ''white'' \<and> parts ! 0 \<noteq> ''black'') \<or>
         isl (parse_fen W (parts ! 1)))"

section \<open>A small world to run the code in\<close>

text \<open>
  Concrete instances of the parameters, for evaluating the definitions: a stand-in for
  the library and the engine that knows a handful of positions and moves, all numbers.
  Position 0 is the starting position, with the moves 1 to 3 listed, each leading to
  the position of the same number, black to move; position 20 (white to move, winning)
  lists the single move 21, after which black is mated in one; position 30 is a
  stalemate, without a legal move. The engine's state counts its searches. It answers
  for position 1 with +50 centipawns for the side to move (black), fails on position
  2, has no score for position 3, reports for position 21 that the side to move is
  mated in one (\<^verbatim>\<open>score mate -1\<close>), and evaluates the starting position at +30.
\<close>

definition start_fen :: string where
  "start_fen = ''rnbqkbnr/pppppppp/8/8/8/8/PPPPPPPP/RNBQKBNR w KQkq - 0 1''"

definition mate_fen :: string where
  "mate_fen = ''7k/R7/8/8/8/8/8/1R4K1 w - - 0 1''"

definition stalemate_fen :: string where
  "stalemate_fen = ''7k/5Q2/6K1/8/8/8/8/8 b - - 0 1''"

definition test_parse_fen :: "string \<Rightarrow> string + nat" where
  "test_parse_fen f =
     (if f = start_fen then Inr 0
      else if f = mate_fen then Inr 20
      else if f = stalemate_fen then Inr 30
      else Inl ''expected 8 rows in position part of fen'')"

definition test_board_fen :: "nat \<Rightarrow> string" where
  "test_board_fen p =
     (if p = 0 then start_fen
      else if p = 20 then mate_fen
      else if p = 30 then stalemate_fen
      else ''position '' @ str_nat p)"

definition test_legal_moves :: "nat \<Rightarrow> nat list" where
  "test_legal_moves p = (if p = 0 then [1, 2, 3] else if p = 20 then [21] else [])"

definition test_move_str :: "nat \<Rightarrow> string" where
  "test_move_str m =
     (if m = 1 then ''e2e4''
      else if m = 2 then ''d2d4''
      else if m = 3 then ''g1f3''
      else if m = 5 then ''e7e5''
      else if m = 6 then ''d7d5''
      else if m = 21 then ''g1g2''
      else ''0000'')"

definition test_answer :: "nat \<Rightarrow> string + nat info" where
  "test_answer p =
     (if p = 0 then
        Inr \<lparr> info_score = Some \<lparr>relative = Cp 30, pov_turn = True\<rparr>, info_pv = Some [1, 5],
              info_depth = Some 20, info_nodes = Some 5000, info_other = True \<rparr>
      else if p = 1 then
        Inr \<lparr> info_score = Some \<lparr>relative = Cp 50, pov_turn = False\<rparr>, info_pv = Some [5],
              info_depth = Some 12, info_nodes = Some 1000, info_other = True \<rparr>
      else if p = 3 then
        Inr \<lparr> info_score = None, info_pv = Some [6],
              info_depth = Some 1, info_nodes = None, info_other = True \<rparr>
      else if p = 21 then
        Inr \<lparr> info_score = Some \<lparr>relative = Mate (- 1), pov_turn = False\<rparr>, info_pv = Some [],
              info_depth = Some 30, info_nodes = Some 700, info_other = True \<rparr>
      else Inl ''engine process died unexpectedly'')"

definition test_world :: "(nat, nat, nat) world" where
  "test_world =
     \<lparr> path_exists = (\<lambda>p. p = ''./stockfish''),
       popen_uci = (\<lambda>p. Inr 0),
       analyse = (\<lambda>e b lim. (test_answer (position b), Suc e)),
       parse_fen = test_parse_fen,
       legal_moves = test_legal_moves,
       apply_move = (\<lambda>p m. m),
       board_fen = test_board_fen,
       board_turn = (\<lambda>p. p = 0 \<or> p = 20),
       move_str = test_move_str \<rparr>"

text \<open>The same world without an engine executable, and with one that does not answer.\<close>

definition no_engine_world :: "(nat, nat, nat) world" where
  "no_engine_world = test_world\<lparr>path_exists := (\<lambda>p. False)\<rparr>"

definition bad_handshake_world :: "(nat, nat, nat) world" where
  "bad_handshake_world = test_world\<lparr>popen_uci := (\<lambda>p. Inl ''engine process died'')\<rparr>"

definition test_board :: "nat \<Rightarrow> (nat, nat) board" where
  "test_board p = \<lparr> position = p, move_stack = [], state_stack = [] \<rparr>"

definition started_analyzer :: "nat chess_analyzer" where
  "started_analyzer =
     \<lparr> engine_path = ''./stockfish'', engine = Some 0, default_depth = None, default_time = 1 \<rparr>"

definition fresh_service :: "nat chess_service" where
  "fresh_service = \<lparr> svc_analyzer = None, svc_engine_path = None \<rparr>"

definition started_service :: "nat chess_service" where
  "started_service =
     \<lparr> svc_analyzer = Some started_analyzer, svc_engine_path = Some ''./stockfish'' \<rparr>"

definition unstarted_analyzer :: "nat chess_analyzer" where
  "unstarted_analyzer =
     \<lparr> engine_path = ''./stockfish'', engine = None, default_depth = None, default_time = 1 \<rparr>"

text \<open>
  The same world with an engine whose node count tells the time it was given: a
  thousand nodes a second.
\<close>

definition timed_world :: "(nat, nat, nat) world" where
  "timed_world =
     test_world\<lparr>analyse :=
       (\<lambda>e b lim.
          (case lim of
             Depth d \<Rightarrow> test_answer (position b)
           | Time t \<Rightarrow>
               (case test_answer (position b) of
                  Inl msg \<Rightarrow> Inl msg
                | Inr i \<Rightarrow> Inr (i\<lparr>info_nodes := Some \<lfloor>1000 * t\<rfloor>\<rparr>)),
           Suc e))\<rparr>"

section \<open>Theorems\<close>

subsection \<open>Scores\<close>

lemma digit_char_props:
  assumes "d < 10"
  shows "is_digit (digit_char d)" and "digit_val (digit_char d) = d"
  using assms by (simp_all add: is_digit_def digit_val_def digit_char_def)

lemma not_digit_signs:
  "\<not> is_digit (CHR ''+'')" "\<not> is_digit (CHR ''-'')" "\<not> is_digit (CHR '')'')"
  by (simp_all add: is_digit_def)

lemma str_nat_digits: "str_nat n \<noteq> [] \<and> (\<forall>c \<in> set (str_nat n). is_digit c)"
proof (induction n rule: str_nat.induct)
  case (1 n)
  show ?case
  proof (cases "n < 10")
    case True
    then show ?thesis
      by (subst (1 2) str_nat.simps) (simp add: digit_char_props)
  next
    case False
    with 1 show ?thesis
      by (subst (1 2) str_nat.simps) (simp add: digit_char_props)
  qed
qed

lemma digits_val_snoc: "digits_val (xs @ [c]) = 10 * digits_val xs + digit_val c"
  by (simp add: digits_val_def)

lemma digits_val_str_nat: "digits_val (str_nat n) = n"
proof (induction n rule: str_nat.induct)
  case (1 n)
  show ?case
  proof (cases "n < 10")
    case True
    then show ?thesis
      by (subst str_nat.simps) (simp add: digits_val_def digit_char_props)
  next
    case False
    with 1 have "digits_val (str_nat (n div 10)) = n div 10"
      by simp
    with False show ?thesis
      by (subst str_nat.simps) (simp add: digits_val_snoc digit_char_props)
  qed
qed

lemma match_cp_at_digits:
  assumes "ds \<noteq> []" and "\<forall>c \<in> set ds. is_digit c"
    and "sg = [] \<or> sg = ''+'' \<or> sg = ''-''"
  shows "match_cp_at (''Cp('' @ sg @ ds @ '')'' @ rest) = Some (sg @ ds)"
proof -
  obtain d ds' where ds: "ds = d # ds'"
    using assms(1) by (cases ds) auto
  with assms(2) have d: "is_digit d"
    by simp
  then have dsign: "d \<noteq> CHR ''+''" "d \<noteq> CHR ''-''"
    using not_digit_signs by auto
  have tw: "takeWhile is_digit (ds @ '')'' @ rest) = ds"
    using assms(2) by (simp add: takeWhile_append2 not_digit_signs)
  have dw: "dropWhile is_digit (ds @ '')'' @ rest) = '')'' @ rest"
    using assms(2) by (simp add: dropWhile_append2 not_digit_signs)
  from assms(3) show ?thesis
  proof (elim disjE)
    assume "sg = []"
    then show ?thesis
      using tw dw dsign assms(1) by (simp add: match_cp_at_def ds)
  next
    assume "sg = ''+''"
    then show ?thesis
      using tw dw assms(1) by (simp add: match_cp_at_def)
  next
    assume "sg = ''-''"
    then show ?thesis
      using tw dw assms(1) by (simp add: match_cp_at_def)
  qed
qed

lemma re_search_cp_pov:
  assumes "match_cp_at (''Cp('' @ body) = Some g"
  shows "re_search_cp (''PovScore('' @ ''Cp('' @ body) = Some g"
  using assms by (simp add: match_cp_at_def)

lemma py_contains_pov: "py_contains ''Cp('' (''PovScore('' @ ''Cp('' @ body)"
  by simp

lemma py_int_signed:
  assumes "ds \<noteq> []" and "\<forall>c \<in> set ds. is_digit c"
  shows "py_int (''+'' @ ds) = int (digits_val ds)"
    and "py_int (''-'' @ ds) = - int (digits_val ds)"
    and "py_int ds = int (digits_val ds)"
proof -
  show "py_int (''+'' @ ds) = int (digits_val ds)"
    by (simp add: py_int_def)
  show "py_int (''-'' @ ds) = - int (digits_val ds)"
    by (simp add: py_int_def)
  obtain d ds' where ds: "ds = d # ds'"
    using assms(1) by (cases ds) auto
  with assms(2) have "is_digit d"
    by simp
  then have "d \<noteq> CHR ''+''" "d \<noteq> CHR ''-''"
    using not_digit_signs by auto
  then show "py_int ds = int (digits_val ds)"
    by (simp add: py_int_def ds)
qed

text \<open>
  For every centipawn score \<open>n\<close> and either point of view, the number the code reads
  back from the score's string is \<open>n\<close> itself, so the advantage it records is
  \<open>n / 100\<close> whichever side is to move (and none at all for an \<open>n\<close> no float can
  hold).
\<close>

lemma extract_advantage_Cp:
  "extract_advantage \<lparr>relative = Cp n, pov_turn = t\<rparr> =
     (if float_overflows n then None else Some (real_of_int n / 100))"
proof -
  define sg :: string where "sg = (if n > 0 then ''+'' else if n < 0 then ''-'' else [])"
  define ds where "ds = str_nat (nat \<bar>n\<bar>)"
  define rest where "rest = '', '' @ (if t then ''WHITE'' else ''BLACK'') @ '')''"
  have dig: "ds \<noteq> []" "\<forall>c \<in> set ds. is_digit c"
    using str_nat_digits [of "nat \<bar>n\<bar>"] by (simp_all add: ds_def)
  have sg: "sg = [] \<or> sg = ''+'' \<or> sg = ''-''"
    by (simp add: sg_def)
  have str: "pov_score_str \<lparr>relative = Cp n, pov_turn = t\<rparr> =
      ''PovScore('' @ ''Cp('' @ sg @ ds @ '')'' @ rest"
    by (simp add: pov_score_str_def str_int_def sg_def ds_def rest_def)
  have m: "match_cp_at (''Cp('' @ sg @ ds @ '')'' @ rest) = Some (sg @ ds)"
    using dig sg by (rule match_cp_at_digits)
  have s: "re_search_cp (''PovScore('' @ ''Cp('' @ sg @ ds @ '')'' @ rest) = Some (sg @ ds)"
    using m by (rule re_search_cp_pov)
  have c: "py_contains ''Cp('' (''PovScore('' @ ''Cp('' @ sg @ ds @ '')'' @ rest)"
    by (rule py_contains_pov)
  have v: "py_int (sg @ ds) = n"
    using py_int_signed [OF dig] by (auto simp: sg_def ds_def digits_val_str_nat)
  show ?thesis
    unfolding extract_advantage_def str Let_def using s c v by simp
qed

lemma fill_move_data_Cp:
  "map_sum id white_advantage
     (fill_move_data W m (i\<lparr>info_score := Some \<lparr>relative = Cp n, pov_turn = t\<rparr>\<rparr>)) =
   Inr (if float_overflows n then None else Some (real_of_int n / 100))"
  by (simp add: fill_move_data_def info_truthy_def is_mate_method_def extract_advantage_Cp Let_def
      initial_move_data_def split: option.splits)

text \<open>
  C1. The code at a position where black is to move after the move and the engine
  reports +50 centipawns for the side to move: the advantage recorded for that move
  (\<^verbatim>\<open>e2e4\<close>) is +0.50, the number of the engine's string over 100. Neither
  \<^verbatim>\<open>board.turn\<close> nor the side named in the score is consulted.
\<close>

theorem C1_black_to_move_plus_50_recorded_as_plus_half:
  "board_turn test_world (position (push test_world (test_board 0) 1)) = False \<and>
   fst (analyse test_world 0 (push test_world (test_board 0) 1) (Time 1)) =
     Inr \<lparr> info_score = Some \<lparr>relative = Cp 50, pov_turn = False\<rparr>, info_pv = Some [5],
           info_depth = Some 12, info_nodes = Some 1000, info_other = True \<rparr> \<and>
   fst (get_board_analysis test_world started_analyzer (test_board 0) None) =
     Inr \<lparr> ad_fen = start_fen, ad_turn = ''white'', total_moves = 3,
           moves =
             [\<lparr> move = ''e2e4'', white_advantage = Some (1 / 2), is_mate = False,
                 mate_in = None, best_response = Some ''e7e5'', depth_reached = Some 12,
                 nodes_searched = Some 1000 \<rparr>,
              initial_move_data ''d2d4'',
              initial_move_data ''g1f3''] \<rparr>"
  by code_simp

text \<open>
  C2. The code on any info dictionary whose score is a mate score, whichever side is
  to move: the call \<^verbatim>\<open>score.mate()\<close> raises \<^verbatim>\<open>AttributeError\<close>, which nothing in
  \<^verbatim>\<open>get_board_analysis\<close> catches, so no evaluation with \<^verbatim>\<open>is_mate\<close> set is produced.
\<close>

theorem C2_mate_score_raises:
  "fill_move_data W m (i\<lparr>info_score := Some \<lparr>relative = Mate k, pov_turn = t\<rparr>\<rparr>) =
     Inl (AttributeError ''PovScore object has no attribute mate'') \<and>
   fill_move_data W m (i\<lparr>info_score := Some \<lparr>relative = MateGiven, pov_turn = t\<rparr>\<rparr>) =
     Inl (AttributeError ''PovScore object has no attribute mate'')"
  by (simp add: fill_move_data_def info_truthy_def is_mate_method_def mate_method_def)

subsection \<open>The enumeration of \<^verbatim>\<open>get_board_analysis\<close>\<close>

lemma pop_push: "pop (push W b m) = Inr b"
  by (simp add: pop_def push_def)

lemma board_analysis_loop_frame:
  "board_analysis_loop W a b tlim ms acc = (Inr mds, a', b')
   \<Longrightarrow> b' = b \<and> length mds = length acc + length ms"
proof (induction ms arbitrary: a acc)
  case Nil
  then show ?case by simp
next
  case (Cons m ms)
  then show ?case
    by (auto simp: pop_push Let_def split: prod.splits sum.splits)
qed

lemma analyze_position_failed:
  assumes "engine a = Some e"
    and "analyse W e b (analysis_limit a time_limit depth_limit) = (Inl msg, e')"
  shows "analyze_position W a b time_limit depth_limit = (Inr empty_info, a\<lparr>engine := Some e'\<rparr>)"
  using assms by (simp add: analyze_position_def)

lemma analyze_position_answered:
  assumes "engine a = Some e"
    and "analyse W e b (analysis_limit a time_limit depth_limit) = (Inr i, e')"
  shows "analyze_position W a b time_limit depth_limit = (Inr i, a\<lparr>engine := Some e'\<rparr>)"
  using assms by (simp add: analyze_position_def)

lemma fill_move_data_empty: "fill_move_data W m empty_info = Inr (initial_move_data (move_str W m))"
  by (simp add: fill_move_data_def empty_info_def info_truthy_def)

lemma fill_move_data_no_score:
  "info_score i = None \<Longrightarrow> fill_move_data W m i = Inr (initial_move_data (move_str W m))"
  by (simp add: fill_move_data_def Let_def)

text \<open>
  C4. When \<^verbatim>\<open>get_board_analysis\<close> returns, the board it was given is as it was before
  the call (move stack, saved positions and current position), so its FEN is the same:
  every move pushed has been popped, also for moves whose analysis failed.
\<close>

theorem C4_board_restored:
  "get_board_analysis W a b time_limit = (Inr r, a', b') \<Longrightarrow> b' = b \<and> fen W b' = fen W b"
  by (auto simp: get_board_analysis_def Let_def split: if_splits prod.splits sum.splits
      dest: board_analysis_loop_frame)

theorem C4_board_restored_witness:
  "(\<exists>r. fst (get_board_analysis test_world started_analyzer (test_board 0) None) = Inr r \<and>
        white_advantage (moves r ! 1) = None) \<and>
   snd (snd (get_board_analysis test_world started_analyzer (test_board 0) None)) = test_board 0 \<and>
   fen test_world (snd (snd (get_board_analysis test_world started_analyzer (test_board 0) None)))
     = start_fen"
proof -
  let ?x = "get_board_analysis test_world started_analyzer (test_board 0) None"
  let ?r = "\<lparr> ad_fen = start_fen, ad_turn = ''white'', total_moves = 3,
              moves =
                [\<lparr> move = ''e2e4'', white_advantage = Some (1 / 2), is_mate = False,
                    mate_in = None, best_response = Some ''e7e5'', depth_reached = Some 12,
                    nodes_searched = Some 1000 \<rparr>,
                 initial_move_data ''d2d4'',
                 initial_move_data ''g1f3''] \<rparr>"
  have run: "fst ?x = Inr ?r"
    by code_simp
  then have "?x = (Inr ?r, fst (snd ?x), snd (snd ?x))"
    by (metis prod.collapse)
  from C4_board_restored [OF this]
  have "snd (snd ?x) = test_board 0"
    and "fen test_world (snd (snd ?x)) = fen test_world (test_board 0)"
    by simp_all
  moreover have "fen test_world (test_board 0) = start_fen"
    by code_simp
  moreover have "white_advantage (moves ?r ! 1) = None"
    by (simp add: initial_move_data_def)
  ultimately show ?thesis
    using run by auto
qed

text \<open>
  C5. The code at a position with one legal move after which the engine reports a
  mate score: the enumeration raises instead of returning one evaluation for the
  move, and the board keeps the move that was being analysed.
\<close>

theorem C5_enumeration_raises_on_mate_score:
  "legal_moves test_world (position (test_board 20)) = [21] \<and>
   get_board_analysis test_world started_analyzer (test_board 20) None =
     (Inl (AttributeError ''PovScore object has no attribute mate''),
      started_analyzer\<lparr>engine := Some 1\<rparr>,
      \<lparr> position = 21, move_stack = [21], state_stack = [20] \<rparr>)"
  by code_simp

text \<open>
  What does hold of the enumeration: with a started engine that reports no mate
  score, it returns, whatever analyses fail; and whenever it returns, there is one
  evaluation per legal move.
\<close>

lemma board_analysis_loop_returns:
  assumes "engine a \<noteq> None"
    and "\<And>e bd lim i e' sc. analyse W e bd lim = (Inr i, e') \<Longrightarrow> info_score i = Some sc
           \<Longrightarrow> \<not> is_mate_method sc"
  shows "\<exists>mds a'. board_analysis_loop W a b tlim ms acc = (Inr mds, a', b) \<and> engine a' \<noteq> None"
  using assms(1)
proof (induction ms arbitrary: a acc)
  case Nil
  then show ?case by simp
next
  case (Cons m ms)
  from Cons.prems obtain e where e: "engine a = Some e"
    by auto
  obtain r e' where an: "analyse W e (push W b m) (analysis_limit a (Some tlim) None) = (r, e')"
    by (cases "analyse W e (push W b m) (analysis_limit a (Some tlim) None)")
  let ?a1 = "a\<lparr>engine := Some e'\<rparr>"
  have a1: "engine ?a1 \<noteq> None"
    by simp
  have "\<exists>i. analyze_position W a (push W b m) (Some tlim) None = (Inr i, ?a1) \<and>
             (\<exists>md. fill_move_data W m i = Inr md)"
  proof (cases r)
    case (Inl msg)
    with e an show ?thesis
      by (auto simp: analyze_position_failed fill_move_data_empty)
  next
    case (Inr i)
    with e an have ap: "analyze_position W a (push W b m) (Some tlim) None = (Inr i, ?a1)"
      by (simp add: analyze_position_answered)
    have "\<exists>md. fill_move_data W m i = Inr md"
    proof (cases "info_score i")
      case None
      then show ?thesis
        by (simp add: fill_move_data_no_score)
    next
      case (Some sc)
      with an Inr assms(2) have "\<not> is_mate_method sc"
        by blast
      with Some show ?thesis
        by (simp add: fill_move_data_def Let_def split: option.splits)
    qed
    with ap show ?thesis
      by blast
  qed
  then obtain i md where
    ap: "analyze_position W a (push W b m) (Some tlim) None = (Inr i, ?a1)"
    and md: "fill_move_data W m i = Inr md"
    by blast
  from Cons.IH [OF a1, of "acc @ [md]"] ap md show ?case
    by (simp add: pop_push)
qed

lemma get_board_analysis_counts:
  "get_board_analysis W a b time_limit = (Inr r, a', b')
   \<Longrightarrow> length (moves r) = length (legal_moves W (position b)) \<and>
       total_moves r = length (legal_moves W (position b))"
  by (auto simp: get_board_analysis_def Let_def rank_def py_sort_reverse_def
      split: if_splits prod.splits sum.splits dest: board_analysis_loop_frame)

lemma get_board_analysis_no_moves:
  "legal_moves W (position b) = [] \<Longrightarrow>
   get_board_analysis W a b time_limit =
     (Inr \<lparr> ad_fen = fen W b,
            ad_turn = (if board_turn W (position b) then ''white'' else ''black''),
            total_moves = 0, moves = [] \<rparr>, a, b)"
  by (simp add: get_board_analysis_def)



subsection \<open>Ranking\<close>


lemma py_sort_reverse_mset: "mset (py_sort_reverse k xs) = mset xs"
  by (simp add: py_sort_reverse_def)

lemma py_sort_reverse_stable:
  "filter (\<lambda>x. k x = v) (py_sort_reverse k xs) = filter (\<lambda>x. k x = v) xs"
proof -
  have "filter (\<lambda>x. k x = v) (sort_key k (rev xs)) = filter (\<lambda>x. k x = v) (rev xs)"
    by (rule sort_key_stable)
  then show ?thesis
    by (simp add: py_sort_reverse_def rev_filter [symmetric])
qed



lemma rank_stable:
  "filter (\<lambda>x. advantage_key x = v) (rank mds) = filter (\<lambda>x. advantage_key x = v) mds"
  unfolding rank_def by (rule py_sort_reverse_stable)







subsection \<open>The time limit\<close>

lemma validate_time_limit_cases:
  "(t > max_analysis_time st \<longrightarrow> validate_time_limit st (Some t) = max_analysis_time st) \<and>
   (t \<le> max_analysis_time st \<longrightarrow> validate_time_limit st (Some t) = t) \<and>
   validate_time_limit st None = default_analysis_time st"
  by (simp add: validate_time_limit_def)

text \<open>
  C7. Let \<open>L\<close> be the configured default when no time limit is given, the ceiling
  when the given limit is strictly above the ceiling, and the given limit itself when
  it is at or below the ceiling (no floor is applied). Then both service operations
  hand \<open>L\<close> to the analyzer and answer with what it finds under \<open>L\<close>: the best-move
  reply is built from \<^verbatim>\<open>analyzer.get_best_move(board, L)\<close>, the complete analysis from
  \<^verbatim>\<open>analyzer.get_board_analysis(board, L)\<close> and \<^verbatim>\<open>analyzer.get_best_move(board, L)\<close>.
  In particular a request above the ceiling has the outcome of the request at the
  ceiling.
\<close>

theorem C7_time_limit_clamping:
  "(((time_limit = None \<and> L = default_analysis_time st) \<or>
     (\<exists>t. time_limit = Some t \<and> max_analysis_time st < t \<and> L = max_analysis_time st) \<or>
     (\<exists>t. time_limit = Some t \<and> t \<le> max_analysis_time st \<and> L = t)) \<and>
    parse_state_string W s = Inr (turn, f, arrows) \<and> Board W f = Inr b \<and>
    get_analyzer W st svc = (Inr a, svc1)
    \<longrightarrow> (get_best_move W a b (Some L) = (Inr d, a1) \<and> bm_error d = None \<and>
         bm_best_move d = Some bm
         \<longrightarrow> service_get_best_move W st svc s time_limit =
               (Inr \<lparr> bmr_best_move = bm,
                      bmr_advantage = bm_advantage d,
                      bmr_is_mate = bm_is_mate d,
                      bmr_mate_in = bm_mate_in d,
                      bmr_depth_reached = bm_depth_reached d,
                      bmr_nodes_searched = bm_nodes_searched d,
                      bmr_principal_variation = bm_principal_variation d \<rparr>,
                svc1\<lparr>svc_analyzer := Some a1\<rparr>)) \<and>
        (get_board_analysis W a b (Some L) = (Inr ad, a2, b2) \<and>
         get_best_move W a2 b2 (Some L) = (Inr d', a3)
         \<longrightarrow> service_analyze_position W st svc s time_limit =
               (Inr \<lparr> ar_fen = ad_fen ad,
                      ar_turn = ad_turn ad,
                      ar_total_moves = total_moves ad,
                      ar_moves = moves ad,
                      ar_best_move = bm_best_move d',
                      ar_advantage = bm_advantage d',
                      ar_is_mate = bm_is_mate d',
                      ar_mate_in = bm_mate_in d',
                      ar_principal_variation = bm_principal_variation d' \<rparr>,
                svc1\<lparr>svc_analyzer := Some a3\<rparr>))) \<and>
   (max_analysis_time st < t'
    \<longrightarrow> service_get_best_move W st svc s (Some t') =
          service_get_best_move W st svc s (Some (max_analysis_time st)) \<and>
        service_analyze_position W st svc s (Some t') =
          service_analyze_position W st svc s (Some (max_analysis_time st)))"
proof (intro conjI impI)
  assume h: "((time_limit = None \<and> L = default_analysis_time st) \<or>
     (\<exists>t. time_limit = Some t \<and> max_analysis_time st < t \<and> L = max_analysis_time st) \<or>
     (\<exists>t. time_limit = Some t \<and> t \<le> max_analysis_time st \<and> L = t)) \<and>
    parse_state_string W s = Inr (turn, f, arrows) \<and> Board W f = Inr b \<and>
    get_analyzer W st svc = (Inr a, svc1)"
  then have L: "validate_time_limit st time_limit = L"
    by (auto simp: validate_time_limit_def)
  {
    assume "get_best_move W a b (Some L) = (Inr d, a1) \<and> bm_error d = None \<and>
         bm_best_move d = Some bm"
    with h L show "service_get_best_move W st svc s time_limit =
               (Inr \<lparr> bmr_best_move = bm,
                      bmr_advantage = bm_advantage d,
                      bmr_is_mate = bm_is_mate d,
                      bmr_mate_in = bm_mate_in d,
                      bmr_depth_reached = bm_depth_reached d,
                      bmr_nodes_searched = bm_nodes_searched d,
                      bmr_principal_variation = bm_principal_variation d \<rparr>,
                svc1\<lparr>svc_analyzer := Some a1\<rparr>)"
      by (simp add: service_get_best_move_def)
  }
  {
    assume "get_board_analysis W a b (Some L) = (Inr ad, a2, b2) \<and>
         get_best_move W a2 b2 (Some L) = (Inr d', a3)"
    with h L show "service_analyze_position W st svc s time_limit =
               (Inr \<lparr> ar_fen = ad_fen ad,
                      ar_turn = ad_turn ad,
                      ar_total_moves = total_moves ad,
                      ar_moves = moves ad,
                      ar_best_move = bm_best_move d',
                      ar_advantage = bm_advantage d',
                      ar_is_mate = bm_is_mate d',
                      ar_mate_in = bm_mate_in d',
                      ar_principal_variation = bm_principal_variation d' \<rparr>,
                svc1\<lparr>svc_analyzer := Some a3\<rparr>)"
      by (simp add: service_analyze_position_def)
  }
next
  assume "max_analysis_time st < t'"
  then have eq: "validate_time_limit st (Some t') =
      validate_time_limit st (Some (max_analysis_time st))"
    by (simp add: validate_time_limit_def)
  show "service_get_best_move W st svc s (Some t') =
          service_get_best_move W st svc s (Some (max_analysis_time st))"
    unfolding service_get_best_move_def eq by (rule refl)
  show "service_analyze_position W st svc s (Some t') =
          service_analyze_position W st svc s (Some (max_analysis_time st))"
    unfolding service_analyze_position_def eq by (rule refl)
qed

theorem C7_time_limit_clamping_witness:
  "map_sum id bmr_nodes_searched
     (fst (service_get_best_move timed_world default_settings started_service
            (''white::'' @ start_fen) (Some 25))) = Inr (Some 10000) \<and>
   map_sum id bmr_nodes_searched
     (fst (service_get_best_move timed_world default_settings started_service
            (''white::'' @ start_fen) (Some (1 / 100)))) = Inr (Some 10) \<and>
   map_sum id bmr_nodes_searched
     (fst (service_get_best_move timed_world default_settings started_service
            (''white::'' @ start_fen) None)) = Inr (Some 1000) \<and>
   service_analyze_position timed_world default_settings started_service
       (''white::'' @ start_fen) (Some 25) =
     service_analyze_position timed_world default_settings started_service
       (''white::'' @ start_fen) (Some 10)"
proof -
  let ?s = "''white::'' @ start_fen"
  let ?D = "\<lambda>n. \<lparr> bm_error = None, bm_best_move = Some ''e2e4'', bm_advantage = Some (3 / 10),
                 bm_is_mate = False, bm_mate_in = None, bm_has_details = True,
                 bm_depth_reached = Some 20, bm_nodes_searched = Some n,
                 bm_principal_variation = [''e2e4'', ''e7e5''] \<rparr>"
  let ?R = "\<lambda>n. \<lparr> bmr_best_move = ''e2e4'', bmr_advantage = bm_advantage (?D n),
                 bmr_is_mate = bm_is_mate (?D n), bmr_mate_in = bm_mate_in (?D n),
                 bmr_depth_reached = bm_depth_reached (?D n),
                 bmr_nodes_searched = bm_nodes_searched (?D n),
                 bmr_principal_variation = bm_principal_variation (?D n) \<rparr>"
  let ?a1 = "started_analyzer\<lparr>engine := Some 1\<rparr>"
  let ?svc1 = "started_service\<lparr>svc_analyzer := Some ?a1\<rparr>"
  let ?st = default_settings
  have ceiling: "max_analysis_time ?st = 10"
    and default: "default_analysis_time ?st = 1"
    by (simp_all add: default_settings_def)
  have hp: "parse_state_string timed_world ?s = Inr (''white'', start_fen, [])"
      "Board timed_world start_fen = Inr (test_board 0)"
      "get_analyzer timed_world ?st started_service = (Inr started_analyzer, started_service)"
    by code_simp+
  have l25: "(Some (25 :: real) = None \<and> (10 :: real) = default_analysis_time ?st) \<or>
      (\<exists>t. Some 25 = Some t \<and> max_analysis_time ?st < t \<and> 10 = max_analysis_time ?st) \<or>
      (\<exists>t. Some 25 = Some t \<and> t \<le> max_analysis_time ?st \<and> 10 = t)"
    by (simp add: ceiling)
  have l001: "(Some (1 / 100 :: real) = None \<and> (1 / 100 :: real) = default_analysis_time ?st) \<or>
      (\<exists>t. Some (1 / 100) = Some t \<and> max_analysis_time ?st < t \<and>
           1 / 100 = max_analysis_time ?st) \<or>
      (\<exists>t. Some (1 / 100) = Some t \<and> t \<le> max_analysis_time ?st \<and> 1 / 100 = t)"
    by (intro disjI2 exI [of _ "1 / 100"]) (simp add: ceiling)
  have lnone: "((None :: real option) = None \<and> (1 :: real) = default_analysis_time ?st) \<or>
      (\<exists>t. None = Some t \<and> max_analysis_time ?st < t \<and> 1 = max_analysis_time ?st) \<or>
      (\<exists>t. None = Some t \<and> t \<le> max_analysis_time ?st \<and> 1 = t)"
    by (simp add: default)
  have g10: "get_best_move timed_world started_analyzer (test_board 0) (Some 10) =
        (Inr (?D 10000), ?a1)"
      "bm_error (?D 10000) = None" "bm_best_move (?D 10000) = Some ''e2e4''"
    by code_simp+
  have g001: "get_best_move timed_world started_analyzer (test_board 0) (Some (1 / 100)) =
        (Inr (?D 10), ?a1)"
      "bm_error (?D 10) = None" "bm_best_move (?D 10) = Some ''e2e4''"
    by code_simp+
  have g1: "get_best_move timed_world started_analyzer (test_board 0) (Some 1) =
        (Inr (?D 1000), ?a1)"
      "bm_error (?D 1000) = None" "bm_best_move (?D 1000) = Some ''e2e4''"
    by code_simp+
  have r25: "service_get_best_move timed_world ?st started_service ?s (Some 25) =
      (Inr (?R 10000), ?svc1)"
    using C7_time_limit_clamping
      [where W = timed_world and st = ?st and svc = started_service and s = ?s
         and time_limit = "Some 25" and L = 10 and turn = "''white''" and f = start_fen
         and arrows = "[]" and b = "test_board 0" and a = started_analyzer
         and ?svc1.0 = started_service and d = "?D 10000" and ?a1.0 = ?a1 and bm = "''e2e4''"]
      hp l25 g10
    by blast
  have r001: "service_get_best_move timed_world ?st started_service ?s (Some (1 / 100)) =
      (Inr (?R 10), ?svc1)"
    using C7_time_limit_clamping
      [where W = timed_world and st = ?st and svc = started_service and s = ?s
         and time_limit = "Some (1 / 100)" and L = "1 / 100" and turn = "''white''"
         and f = start_fen and arrows = "[]" and b = "test_board 0" and a = started_analyzer
         and ?svc1.0 = started_service and d = "?D 10" and ?a1.0 = ?a1 and bm = "''e2e4''"]
      hp l001 g001
    by blast
  have rnone: "service_get_best_move timed_world ?st started_service ?s None =
      (Inr (?R 1000), ?svc1)"
    using C7_time_limit_clamping
      [where W = timed_world and st = ?st and svc = started_service and s = ?s
         and time_limit = None and L = 1 and turn = "''white''" and f = start_fen
         and arrows = "[]" and b = "test_board 0" and a = started_analyzer
         and ?svc1.0 = started_service and d = "?D 1000" and ?a1.0 = ?a1 and bm = "''e2e4''"]
      hp lnone g1
    by blast
  have above: "max_analysis_time ?st < 25"
    by (simp add: ceiling)
  have "service_analyze_position timed_world ?st started_service ?s (Some 25) =
      service_analyze_position timed_world ?st started_service ?s (Some (max_analysis_time ?st))"
    using C7_time_limit_clamping
      [where W = timed_world and st = ?st and svc = started_service and s = ?s and t' = 25]
      above
    by blast
  then have ra: "service_analyze_position timed_world ?st started_service ?s (Some 25) =
      service_analyze_position timed_world ?st started_service ?s (Some 10)"
    by (simp only: ceiling)
  show ?thesis
    unfolding r25 r001 rnone ra by simp
qed

subsection \<open>Position records\<close>

lemma py_split_nonempty: "py_split sep s \<noteq> []"
  by (induction sep s rule: py_split.induct) (auto split: list.splits)

lemma py_split_no_colon:
  "CHR '':'' \<notin> set xs \<Longrightarrow>
   py_split ''::'' (xs @ ys) = (xs @ hd (py_split ''::'' ys)) # tl (py_split ''::'' ys)"
proof (induction xs)
  case Nil
  then show ?case by (simp add: py_split_nonempty)
next
  case (Cons c xs)
  then have c: "c \<noteq> CHR '':''" and xs: "CHR '':'' \<notin> set xs"
    by auto
  have "take 2 (c # xs @ ys) \<noteq> ''::''"
    using c by (cases "xs @ ys") auto
  with Cons.IH [OF xs] show ?case
    by simp
qed

lemma py_split_record:
  assumes "CHR '':'' \<notin> set F"
  shows "py_split ''::'' (''white::'' @ F @ ''::'') = [''white'', F, []]"
proof -
  have 1: "py_split ''::'' (F @ ''::'') = [F, []]"
    using py_split_no_colon [OF assms, of "''::''"] by simp
  have "py_split ''::'' (''white'' @ (''::'' @ F @ ''::'')) =
     (''white'' @ hd (py_split ''::'' (''::'' @ F @ ''::''))) #
       tl (py_split ''::'' (''::'' @ F @ ''::''))"
    by (rule py_split_no_colon) simp
  then show ?thesis using 1 by simp
qed

lemma py_strip_white: "py_strip ''white'' = ''white''"
  by code_simp

text \<open>
  C8, as the claim states it, fails: the record whose turn segment is \<^verbatim>\<open>" white"\<close>,
  with a leading space, is among those the claim says are rejected (its turn segment
  is neither \<^verbatim>\<open>white\<close> nor \<^verbatim>\<open>black\<close>), and the code parses it.
\<close>

theorem C8_padded_turn_is_accepted:
  "spec_record_invalid test_world ('' white::'' @ start_fen) \<and>
   parse_state_string test_world ('' white::'' @ start_fen) = Inr (''white'', start_fen, [])"
  by code_simp

text \<open>
  C8, amended. Parsing fails, always with \<^verbatim>\<open>ValueError\<close>, exactly when the record has
  fewer than two segments, or its turn segment stripped of surrounding whitespace is
  neither \<^verbatim>\<open>white\<close> nor \<^verbatim>\<open>black\<close>, or its stripped FEN segment does not parse. A
  successful parse returns the stripped turn, FEN and third segment, the last being
  empty when there is none. Whitespace is what \<^verbatim>\<open>str.strip\<close> removes, the no-break
  space included. For a FEN that parses, has no colon and no surrounding
  whitespace, \<^verbatim>\<open>"white::<FEN>::"\<close> parses to \<^verbatim>\<open>("white", <FEN>, "")\<close>.
\<close>

theorem C8_parse_state_string:
  "(isl (parse_state_string W s) \<longleftrightarrow>
      length (py_split ''::'' s) < 2 \<or>
      (py_strip (py_split ''::'' s ! 0) \<noteq> ''white'' \<and>
       py_strip (py_split ''::'' s ! 0) \<noteq> ''black'') \<or>
      isl (parse_fen W (py_strip (py_split ''::'' s ! 1)))) \<and>
   (\<forall>ex. parse_state_string W s = Inl ex \<longrightarrow> (\<exists>msg. ex = ValueError msg)) \<and>
   (\<forall>t f ar. parse_state_string W s = Inr (t, f, ar) \<longrightarrow>
      t = py_strip (py_split ''::'' s ! 0) \<and> f = py_strip (py_split ''::'' s ! 1) \<and>
      ar = (if length (py_split ''::'' s) > 2 then py_strip (py_split ''::'' s ! 2) else [])) \<and>
   (CHR '':'' \<notin> set F \<and> py_strip F = F \<and> parse_fen W F = Inr p \<longrightarrow>
      parse_state_string W (''white::'' @ F @ ''::'') = Inr (''white'', F, []))"
proof (intro conjI allI impI)
  show "isl (parse_state_string W s) \<longleftrightarrow>
      length (py_split ''::'' s) < 2 \<or>
      (py_strip (py_split ''::'' s ! 0) \<noteq> ''white'' \<and>
       py_strip (py_split ''::'' s ! 0) \<noteq> ''black'') \<or>
      isl (parse_fen W (py_strip (py_split ''::'' s ! 1)))"
    by (auto simp: parse_state_string_def Board_def Let_def split: sum.splits)
  show "\<exists>msg. ex = ValueError msg" if "parse_state_string W s = Inl ex" for ex
    using that by (auto simp: parse_state_string_def Board_def Let_def split: sum.splits if_splits)
  show "t = py_strip (py_split ''::'' s ! 0)" "f = py_strip (py_split ''::'' s ! 1)"
    "ar = (if length (py_split ''::'' s) > 2 then py_strip (py_split ''::'' s ! 2) else [])"
    if "parse_state_string W s = Inr (t, f, ar)" for t f ar
    using that by (auto simp: parse_state_string_def Board_def Let_def split: sum.splits if_splits)
  show "parse_state_string W (''white::'' @ F @ ''::'') = Inr (''white'', F, [])"
    if "CHR '':'' \<notin> set F \<and> py_strip F = F \<and> parse_fen W F = Inr p"
  proof -
    from that have "CHR '':'' \<notin> set F"
      by simp
    then have "py_split ''::'' (''white::'' @ F @ ''::'') = [''white'', F, []]"
      by (rule py_split_record)
    moreover have "py_strip [] = []"
      by (simp add: py_strip_def)
    ultimately show ?thesis
      using that
      by (simp add: parse_state_string_def Board_def Let_def py_strip_white del: py_split.simps)
  qed
qed

theorem C8_parse_state_string_witness:
  "isl (parse_state_string test_world (''bogus::'' @ start_fen)) \<and>
   isl (parse_state_string test_world ''white'') \<and>
   \<not> isl (parse_state_string test_world (CHR 0xA0 # ''white ::'' @ start_fen)) \<and>
   parse_state_string test_world (''white::'' @ start_fen @ ''::'') = Inr (''white'', start_fen, [])"
proof -
  have h1: "py_strip (py_split ''::'' (''bogus::'' @ start_fen) ! 0) \<noteq> ''white'' \<and>
      py_strip (py_split ''::'' (''bogus::'' @ start_fen) ! 0) \<noteq> ''black''"
    by code_simp
  have h2: "length (py_split ''::'' ''white'') < 2"
    by code_simp
  have h3: "CHR '':'' \<notin> set start_fen \<and> py_strip start_fen = start_fen \<and>
      parse_fen test_world start_fen = Inr 0"
    by code_simp
  have h4: "\<not> (length (py_split ''::'' (CHR 0xA0 # ''white ::'' @ start_fen)) < 2 \<or>
      (py_strip (py_split ''::'' (CHR 0xA0 # ''white ::'' @ start_fen) ! 0) \<noteq> ''white'' \<and>
       py_strip (py_split ''::'' (CHR 0xA0 # ''white ::'' @ start_fen) ! 0) \<noteq> ''black'') \<or>
      isl (parse_fen test_world
            (py_strip (py_split ''::'' (CHR 0xA0 # ''white ::'' @ start_fen) ! 1))))"
    by code_simp
  from C8_parse_state_string [where W = test_world and s = "''bogus::'' @ start_fen"] h1
  have "isl (parse_state_string test_world (''bogus::'' @ start_fen))"
    by blast
  moreover from C8_parse_state_string [where W = test_world and s = "''white''"] h2
  have "isl (parse_state_string test_world ''white'')"
    by blast
  moreover from C8_parse_state_string
    [where W = test_world and s = "CHR 0xA0 # ''white ::'' @ start_fen"] h4
  have "\<not> isl (parse_state_string test_world (CHR 0xA0 # ''white ::'' @ start_fen))"
    by blast
  moreover from C8_parse_state_string [where W = test_world and F = start_fen and p = 0] h3
  have "parse_state_string test_world (''white::'' @ start_fen @ ''::'') =
      Inr (''white'', start_fen, [])"
    by blast
  ultimately show ?thesis
    by blast
qed

subsection \<open>Starting the engine\<close>

lemma start_engine_fails:
  "\<not> path_exists W (engine_path a) \<or> isl (popen_uci W (engine_path a))
   \<Longrightarrow> start_engine W a = Inl (SystemExit 1)"
  by (auto simp: start_engine_def start_engine_try_def isl_def split: sum.splits)

lemma initialize_analyzer_fails:
  assumes "\<forall>p. \<not> path_exists W p \<or> isl (popen_uci W p)" and "svc_analyzer svc = None"
  shows "\<exists>ex. fst (initialize_analyzer W st svc) = Inl ex \<and>
          (ex = SystemExit 1 \<or> ex = RuntimeError engine_not_found_message) \<and>
          \<not> is_engine_ready (snd (initialize_analyzer W st svc))"
proof -
  have "start_engine W a = Inl (SystemExit 1)" for a :: "'c chess_analyzer"
    using assms(1) by (intro start_engine_fails) blast
  then show ?thesis
    using assms(2) by (auto simp: initialize_analyzer_def Let_def is_engine_ready_def split: option.splits)
qed

text \<open>
  C9. Starting the engine fails whenever the executable is not there or
  \<^verbatim>\<open>popen_uci\<close> raises: \<^verbatim>\<open>ChessAnalyzer.start_engine\<close> ends in \<^verbatim>\<open>sys.exit(1)\<close>, that is
  it raises \<^verbatim>\<open>SystemExit(1)\<close> to its caller. \<^verbatim>\<open>ChessService.start_engine\<close> on a
  service without an analyzer then fails as well, with that \<^verbatim>\<open>SystemExit\<close> (which
  its \<^verbatim>\<open>except Exception\<close> lets through) or, when no candidate path is found, with
  a \<^verbatim>\<open>RuntimeError\<close>, and the service is not ready afterwards. An analysis asked of
  an analyzer whose engine was not started raises \<^verbatim>\<open>RuntimeError\<close> and returns nothing.
\<close>

theorem C9_start_fails_without_engine:
  "(\<not> path_exists W (engine_path a) \<or> isl (popen_uci W (engine_path a))
      \<longrightarrow> start_engine W a = Inl (SystemExit 1)) \<and>
   (svc_analyzer svc = None \<and> (\<forall>p. \<not> path_exists W p \<or> isl (popen_uci W p))
      \<longrightarrow> (fst (service_start_engine W st svc) = Inl (SystemExit 1) \<or>
           fst (service_start_engine W st svc) =
             Inl (RuntimeError (''Failed to start chess engine: '' @ engine_not_found_message))) \<and>
          \<not> is_engine_ready (snd (service_start_engine W st svc))) \<and>
   (engine a = None
      \<longrightarrow> analyze_position W a b time_limit depth_limit =
            (Inl (RuntimeError ''Engine not started. Use start_engine() first.''), a))"
proof (intro conjI impI)
  assume "\<not> path_exists W (engine_path a) \<or> isl (popen_uci W (engine_path a))"
  then show "start_engine W a = Inl (SystemExit 1)"
    by (rule start_engine_fails)
next
  assume h: "svc_analyzer svc = None \<and> (\<forall>p. \<not> path_exists W p \<or> isl (popen_uci W p))"
  then obtain ex where ex: "fst (initialize_analyzer W st svc) = Inl ex"
    "ex = SystemExit 1 \<or> ex = RuntimeError engine_not_found_message"
    "\<not> is_engine_ready (snd (initialize_analyzer W st svc))"
    using initialize_analyzer_fails [of W svc st] by blast
  obtain svc1 where s1: "initialize_analyzer W st svc = (Inl ex, svc1)"
    using ex(1) by (cases "initialize_analyzer W st svc") auto
  with ex h show "fst (service_start_engine W st svc) = Inl (SystemExit 1) \<or>
           fst (service_start_engine W st svc) =
             Inl (RuntimeError (''Failed to start chess engine: '' @ engine_not_found_message))"
    by (auto simp: service_start_engine_def get_analyzer_def)
  from s1 ex h show "\<not> is_engine_ready (snd (service_start_engine W st svc))"
    by (auto simp: service_start_engine_def get_analyzer_def)
next
  assume "engine a = None"
  then show "analyze_position W a b time_limit depth_limit =
            (Inl (RuntimeError ''Engine not started. Use start_engine() first.''), a)"
    by (simp add: analyze_position_def)
qed

theorem C9_start_fails_without_engine_witness:
  "start_engine no_engine_world unstarted_analyzer = Inl (SystemExit 1) \<and>
   start_engine bad_handshake_world unstarted_analyzer = Inl (SystemExit 1) \<and>
   isl (fst (service_start_engine no_engine_world default_settings fresh_service)) \<and>
   \<not> is_engine_ready (snd (service_start_engine no_engine_world default_settings fresh_service)) \<and>
   analyze_position test_world unstarted_analyzer (test_board 0) None None =
     (Inl (RuntimeError ''Engine not started. Use start_engine() first.''), unstarted_analyzer)"
proof -
  have h1: "\<not> path_exists no_engine_world (engine_path unstarted_analyzer) \<or>
      isl (popen_uci no_engine_world (engine_path unstarted_analyzer))"
    by code_simp
  have h2: "\<not> path_exists bad_handshake_world (engine_path unstarted_analyzer) \<or>
      isl (popen_uci bad_handshake_world (engine_path unstarted_analyzer))"
    by code_simp
  have h3: "svc_analyzer fresh_service = None \<and>
      (\<forall>p. \<not> path_exists no_engine_world p \<or> isl (popen_uci no_engine_world p))"
    by (simp add: fresh_service_def no_engine_world_def test_world_def)
  have h4: "engine unstarted_analyzer = None"
    by (simp add: unstarted_analyzer_def)
  note c = C9_start_fails_without_engine
    [where W = no_engine_world and a = unstarted_analyzer and svc = fresh_service
       and st = default_settings]
  from c h1 have "start_engine no_engine_world unstarted_analyzer = Inl (SystemExit 1)"
    by blast
  moreover from C9_start_fails_without_engine
    [where W = bad_handshake_world and a = unstarted_analyzer] h2
  have "start_engine bad_handshake_world unstarted_analyzer = Inl (SystemExit 1)"
    by blast
  moreover from c h3
  have "fst (service_start_engine no_engine_world default_settings fresh_service) =
        Inl (SystemExit 1) \<or>
      fst (service_start_engine no_engine_world default_settings fresh_service) =
        Inl (RuntimeError (''Failed to start chess engine: '' @ engine_not_found_message))"
    by blast
  then have "isl (fst (service_start_engine no_engine_world default_settings fresh_service))"
    by (elim disjE) simp_all
  moreover from c h3
  have "\<not> is_engine_ready (snd (service_start_engine no_engine_world default_settings fresh_service))"
    by blast
  moreover from C9_start_fails_without_engine
    [where W = test_world and a = unstarted_analyzer and b = "test_board 0"
       and time_limit = None and depth_limit = None] h4
  have "analyze_position test_world unstarted_analyzer (test_board 0) None None =
     (Inl (RuntimeError ''Engine not started. Use start_engine() first.''), unstarted_analyzer)"
    by blast
  ultimately show ?thesis
    by blast
qed

subsection \<open>The turn token\<close>

lemma parse_shape:
  assumes "py_split ''::'' s = t # rest"
    and "py_strip t = ''white'' \<or> py_strip t = ''black''"
  shows "map_sum id snd (parse_state_string W s) =
     (case rest of
        [] \<Rightarrow> Inl (ValueError ''State string must contain at least turn and FEN separated by ::'')
      | f # others \<Rightarrow>
          (case Board W (py_strip f) of
             Inl ex \<Rightarrow> Inl (ValueError (''Invalid FEN: '' @ exn_str ex))
           | Inr b \<Rightarrow> Inr (py_strip f, (case others of [] \<Rightarrow> [] | x # _ \<Rightarrow> py_strip x))))"
  using assms
  by (auto simp: parse_state_string_def Let_def split: list.splits sum.splits)

lemma parse_agree:
  assumes "py_split ''::'' s1 = t1 # rest" and "py_split ''::'' s2 = t2 # rest"
    and "py_strip t1 = ''white'' \<or> py_strip t1 = ''black''"
    and "py_strip t2 = ''white'' \<or> py_strip t2 = ''black''"
  shows "(\<exists>ex. parse_state_string W s1 = Inl ex \<and> parse_state_string W s2 = Inl ex) \<or>
         (\<exists>u1 u2 f ar. parse_state_string W s1 = Inr (u1, f, ar) \<and>
                        parse_state_string W s2 = Inr (u2, f, ar))"
proof -
  have eq: "map_sum id snd (parse_state_string W s1) = map_sum id snd (parse_state_string W s2)"
    using parse_shape [OF assms(1) assms(3), where W = W] parse_shape [OF assms(2) assms(4), where W = W]
    by simp
  show ?thesis
  proof (cases "parse_state_string W s1")
    case (Inl ex)
    with eq show ?thesis
      by (cases "parse_state_string W s2") auto
  next
    case (Inr x)
    with eq show ?thesis
      by (cases "parse_state_string W s2"; cases x) auto
  qed
qed

text \<open>
  C10. Two records whose segments after the first are the same, each with a turn
  segment that reads \<^verbatim>\<open>white\<close> or \<^verbatim>\<open>black\<close>, give the same outcome (the result or the
  exception, and the state the service is left in) in \<^verbatim>\<open>ChessService.analyze_position\<close>
  and in \<^verbatim>\<open>ChessService.get_best_move\<close>, from the same service and engine state: the
  turn is checked by the parser and read by nothing after it.
\<close>

theorem C10_turn_token_not_consumed:
  "py_split ''::'' s1 = t1 # rest \<and> py_split ''::'' s2 = t2 # rest \<and>
   (py_strip t1 = ''white'' \<or> py_strip t1 = ''black'') \<and>
   (py_strip t2 = ''white'' \<or> py_strip t2 = ''black'')
   \<longrightarrow> service_analyze_position W st svc s1 time_limit =
         service_analyze_position W st svc s2 time_limit \<and>
       service_get_best_move W st svc s1 time_limit =
         service_get_best_move W st svc s2 time_limit"
proof
  assume h: "py_split ''::'' s1 = t1 # rest \<and> py_split ''::'' s2 = t2 # rest \<and>
   (py_strip t1 = ''white'' \<or> py_strip t1 = ''black'') \<and>
   (py_strip t2 = ''white'' \<or> py_strip t2 = ''black'')"
  then have "(\<exists>ex. parse_state_string W s1 = Inl ex \<and> parse_state_string W s2 = Inl ex) \<or>
         (\<exists>u1 u2 f ar. parse_state_string W s1 = Inr (u1, f, ar) \<and>
                        parse_state_string W s2 = Inr (u2, f, ar))"
    by (intro parse_agree) blast+
  then show "service_analyze_position W st svc s1 time_limit =
         service_analyze_position W st svc s2 time_limit \<and>
       service_get_best_move W st svc s1 time_limit =
         service_get_best_move W st svc s2 time_limit"
    by (auto simp: service_analyze_position_def service_get_best_move_def)
qed

theorem C10_turn_token_not_consumed_witness:
  "service_analyze_position test_world default_settings fresh_service
       (''white::'' @ start_fen @ ''::'') (Some 2) =
     service_analyze_position test_world default_settings fresh_service
       (''black::'' @ start_fen @ ''::'') (Some 2) \<and>
   service_get_best_move test_world default_settings fresh_service
       (''white::'' @ start_fen @ ''::'') (Some 2) =
     service_get_best_move test_world default_settings fresh_service
       (''black::'' @ start_fen @ ''::'') (Some 2) \<and>
   isl (fst (service_get_best_move test_world default_settings fresh_service
       (''black::'' @ start_fen @ ''::'') (Some 2))) = False"
proof -
  have h: "py_split ''::'' (''white::'' @ start_fen @ ''::'') = ''white'' # [start_fen, []] \<and>
      py_split ''::'' (''black::'' @ start_fen @ ''::'') = ''black'' # [start_fen, []] \<and>
      (py_strip ''white'' = ''white'' \<or> py_strip ''white'' = ''black'') \<and>
      (py_strip ''black'' = ''white'' \<or> py_strip ''black'' = ''black'')"
    by code_simp
  have r: "isl (fst (service_get_best_move test_world default_settings fresh_service
       (''black::'' @ start_fen @ ''::'') (Some 2))) = False"
    by code_simp
  from C10_turn_token_not_consumed
    [where W = test_world and st = default_settings and svc = fresh_service
       and ?s1.0 = "''white::'' @ start_fen @ ''::''" and ?s2.0 = "''black::'' @ start_fen @ ''::''"
       and ?t1.0 = "''white''" and ?t2.0 = "''black''" and rest = "[start_fen, []]"
       and time_limit = "Some 2"] h r
  show ?thesis
    by blast
qed

end
